theory Spec2Isabelle
  imports Complex_Main
begin

section \<open>The data the notebook handles\<close>

text \<open>
  The notebook \<^verbatim>\<open>05 - Getting started with pandas.ipynb\<close> works on a gene-expression
  matrix: a rectangular table of expression values with one gene identifier per row and
  one sample identifier per column, and on single rows or columns taken out of it.
  A cell is a number or the missing-value marker.
\<close>

datatype val = Num rat | NaN

record DataFrame =
  index :: "string list"
  columns :: "string list"
  data :: "val list list"

text \<open>A \<^verbatim>\<open>Series\<close>: its \<^verbatim>\<open>name\<close>, its \<^verbatim>\<open>index\<close> (the labels) and its values.\<close>

record Series =
  sname :: string
  sindex :: "string list"
  svalues :: "val list"

text \<open>What \<^verbatim>\<open>print\<close> receives: one entry per argument.\<close>

datatype pyval =
    StrV string
  | BoolV bool
  | IntV int
  | TupleV "nat list"
  | ListV "string list"
  | SeriesV Series
  | FrameV DataFrame
  | TypeV string

datatype error =
    NameError string
  | FileNotFoundError string
  | ParserError string
  | KeyError string
  | IndexingError string
  | ValueError string

section \<open>The library, as the notebook calls it\<close>

text \<open>
  Every operation on tables is a call into the external tabular-data library. The notebook is
  modelled over an arbitrary implementation of the calls it makes: each one takes its
  arguments and either raises or returns a value. \<^verbatim>\<open>read_csv\<close> also receives the file
  system, which it reads.
  \<^item> \<^verbatim>\<open>read_csv files path sep header index_col\<close> is \<^verbatim>\<open>pd.read_csv(path, sep=, header=, index_col=)\<close>;
  \<^item> \<^verbatim>\<open>getitem df s\<close> is \<^verbatim>\<open>df[s]\<close>;
  \<^item> \<^verbatim>\<open>loc_row df g\<close> is \<^verbatim>\<open>df.loc[g]\<close>, \<^verbatim>\<open>loc_col df s\<close> is \<^verbatim>\<open>df.loc[:, s]\<close>,
    \<^verbatim>\<open>loc_mask df sel\<close> is \<^verbatim>\<open>df.loc[sel]\<close> for a Boolean array;
  \<^item> \<^verbatim>\<open>iloc_cols df a b\<close> is \<^verbatim>\<open>df.iloc[:, a:b]\<close>, an omitted bound being \<^verbatim>\<open>None\<close>;
  \<^item> \<^verbatim>\<open>equals p q\<close> is \<^verbatim>\<open>p.equals(q)\<close>;
  \<^item> \<^verbatim>\<open>startswith idx p\<close> is \<^verbatim>\<open>idx.str.startswith(p)\<close> on an index;
  \<^item> \<^verbatim>\<open>concat objs axis\<close> is \<^verbatim>\<open>pd.concat(objs, axis=)\<close>, an omitted axis being \<^verbatim>\<open>None\<close>;
  \<^item> \<^verbatim>\<open>series_slice p a b\<close> is \<^verbatim>\<open>p[a:b]\<close> and \<^verbatim>\<open>frame_slice df a b\<close> is \<^verbatim>\<open>df[a:b]\<close>.
\<close>

record pandas =
  read_csv :: "(string \<rightharpoonup> string) \<Rightarrow> string \<Rightarrow> char \<Rightarrow> nat \<Rightarrow> nat \<Rightarrow> error + DataFrame"
  getitem :: "DataFrame \<Rightarrow> string \<Rightarrow> error + Series"
  loc_row :: "DataFrame \<Rightarrow> string \<Rightarrow> error + Series"
  loc_col :: "DataFrame \<Rightarrow> string \<Rightarrow> error + Series"
  loc_mask :: "DataFrame \<Rightarrow> bool list \<Rightarrow> error + DataFrame"
  iloc_cols :: "DataFrame \<Rightarrow> int option \<Rightarrow> int option \<Rightarrow> error + DataFrame"
  equals :: "Series \<Rightarrow> Series \<Rightarrow> error + bool"
  startswith :: "string list \<Rightarrow> string \<Rightarrow> error + bool list"
  concat :: "DataFrame list \<Rightarrow> nat option \<Rightarrow> error + DataFrame"
  series_slice :: "Series \<Rightarrow> int option \<Rightarrow> int option \<Rightarrow> error + Series"
  frame_slice :: "DataFrame \<Rightarrow> int option \<Rightarrow> int option \<Rightarrow> error + DataFrame"

text \<open>
  Attribute reads: \<^verbatim>\<open>df.shape\<close> and \<^verbatim>\<open>sel.sum()\<close>, the number of \<^verbatim>\<open>True\<close> entries of a
  Boolean array. \<^verbatim>\<open>df.index.tolist()[:5]\<close> is \<open>take 5\<close> of the labels.
\<close>

definition shape :: "DataFrame \<Rightarrow> pyval" where
  "shape d = TupleV [length (index d), length (columns d)]"

definition sum_mask :: "bool list \<Rightarrow> pyval" where
  "sum_mask m = IntV (int (length (filter id m)))"

text \<open>
  The two imports of the first cell are taken to succeed.
  \<^verbatim>\<open>os.path.join\<close> on a POSIX system: a component that starts with the separator
  replaces what came before, and a separator is added unless the path so far is empty or
  already ends with one.
\<close>

fun os_path_join :: "string \<Rightarrow> string list \<Rightarrow> string" where
  "os_path_join a [] = a"
| "os_path_join a (b # bs) =
     os_path_join
       (if b \<noteq> [] \<and> hd b = CHR ''/'' then b
        else if a = [] \<or> last a = CHR ''/'' then a @ b
        else a @ CHR ''/'' # b) bs"

section \<open>The notebook\<close>

text \<open>
  The state of a session: the file system, what has been printed so far (one entry per
  \<^verbatim>\<open>print\<close> call), and the notebook's variables, unbound at the start.
\<close>

record state =
  files :: "string \<rightharpoonup> string"
  stdout :: "pyval list list"
  expression_file :: "string option"
  df :: "DataFrame option"
  sample :: "string option"
  profile :: "Series option"
  gene :: "string option"
  gene_expression :: "Series option"
  profile2 :: "Series option"
  first_samples :: "DataFrame option"
  last_samples :: "DataFrame option"
  sel :: "bool list option"
  A_only :: "DataFrame option"
  Z_only :: "DataFrame option"
  combined :: "DataFrame option"
  messy :: "DataFrame option"

text \<open>Reading a variable that is not bound raises \<^verbatim>\<open>NameError\<close>.\<close>

definition var :: "string \<Rightarrow> 'a option \<Rightarrow> error + 'a" where
  "var x v = (case v of None \<Rightarrow> Inl (NameError x) | Some a \<Rightarrow> Inr a)"

text \<open>Sequencing: an exception raised by the first part is the result.\<close>

definition and_then :: "error + 'a \<Rightarrow> ('a \<Rightarrow> error + 'b) \<Rightarrow> error + 'b" where
  "and_then m f = (case m of Inl e \<Rightarrow> Inl e | Inr a \<Rightarrow> f a)"

definition print :: "pyval list \<Rightarrow> state \<Rightarrow> error + state" where
  "print args s = Inr (s\<lparr>stdout := stdout s @ [args]\<rparr>)"

text \<open>
  A statement runs against the library and the state; it raises, leaving the state as it
  was, or completes with the new state.
\<close>

type_synonym stmt = "pandas \<Rightarrow> state \<Rightarrow> error + state"

text \<open>The first code cell: build the path, read the file, print the shape and the first labels.\<close>

definition cell_read :: "stmt list" where
  "cell_read =
    [\<lambda>L s. Inr (s\<lparr>expression_file :=
         Some (os_path_join ''..'' [''data'', ''brca_expression_5yr_dead.tsv''])\<rparr>),
     \<lambda>L s. and_then (var ''expression_file'' (expression_file s)) (\<lambda>f.
         print [StrV ''Path to expression file:'', StrV f] s),
     \<lambda>L s. and_then (var ''expression_file'' (expression_file s)) (\<lambda>f.
         and_then (read_csv L (files s) f (CHR 0x09) 0 0) (\<lambda>d.
         Inr (s\<lparr>df := Some d\<rparr>))),
     \<lambda>L s. and_then (var ''df'' (df s)) (\<lambda>d.
         print [StrV ''Matrix shape:'', shape d] s),
     \<lambda>L s. and_then (var ''df'' (df s)) (\<lambda>d.
         print [StrV ''Genes:'', ListV (take 5 (index d))] s),
     \<lambda>L s. and_then (var ''df'' (df s)) (\<lambda>d.
         print [StrV ''Samples:'', ListV (take 5 (columns d))] s)]"

text \<open>Section 2: the profile of one sample, the expression of one gene, the same sample by \<^verbatim>\<open>.loc\<close>.\<close>

definition cell_profile :: "stmt list" where
  "cell_profile =
    [\<lambda>L s. Inr (s\<lparr>sample := Some ''TCGA-B6-A0WW-01A''\<rparr>),
     \<lambda>L s. and_then (var ''df'' (df s)) (\<lambda>d.
         and_then (var ''sample'' (sample s)) (\<lambda>x.
         and_then (getitem L d x) (\<lambda>p.
         Inr (s\<lparr>profile := Some p\<rparr>)))),
     \<lambda>L s. and_then (var ''profile'' (profile s)) (\<lambda>p.
         and_then (series_slice L p None (Some 3)) (\<lambda>q.
         print [SeriesV q] s))]"

definition cell_type :: "stmt list" where
  "cell_type =
    [\<lambda>L s. and_then (var ''profile'' (profile s)) (\<lambda>p.
         print [TypeV ''pandas.core.series.Series''] s)]"

definition cell_gene :: "stmt list" where
  "cell_gene =
    [\<lambda>L s. Inr (s\<lparr>gene := Some ''A2M''\<rparr>),
     \<lambda>L s. and_then (var ''df'' (df s)) (\<lambda>d.
         and_then (var ''gene'' (gene s)) (\<lambda>g.
         and_then (loc_row L d g) (\<lambda>r.
         Inr (s\<lparr>gene_expression := Some r\<rparr>)))),
     \<lambda>L s. and_then (var ''gene_expression'' (gene_expression s)) (\<lambda>r.
         and_then (series_slice L r None (Some 3)) (\<lambda>q.
         print [SeriesV q] s)),
     \<lambda>L s. print [] s,
     \<lambda>L s. and_then (var ''gene_expression'' (gene_expression s)) (\<lambda>r.
         print [StrV ''Type:'', TypeV ''pandas.core.series.Series''] s)]"

definition cell_loc_sample :: "stmt list" where
  "cell_loc_sample =
    [\<lambda>L s. Inr (s\<lparr>sample := Some ''TCGA-B6-A0WW-01A''\<rparr>),
     \<lambda>L s. and_then (var ''df'' (df s)) (\<lambda>d.
         and_then (var ''sample'' (sample s)) (\<lambda>x.
         and_then (loc_col L d x) (\<lambda>p.
         Inr (s\<lparr>profile2 := Some p\<rparr>)))),
     \<lambda>L s. and_then (var ''profile'' (profile s)) (\<lambda>p.
         and_then (var ''profile2'' (profile2 s)) (\<lambda>q.
         and_then (equals L p q) (\<lambda>b.
         print [BoolV b] s)))]"

text \<open>Section 3: the first and the last ten samples.\<close>

definition cell_first_samples :: "stmt list" where
  "cell_first_samples =
    [\<lambda>L s. and_then (var ''df'' (df s)) (\<lambda>d.
         and_then (iloc_cols L d None (Some 10)) (\<lambda>t.
         Inr (s\<lparr>first_samples := Some t\<rparr>))),
     \<lambda>L s. and_then (var ''first_samples'' (first_samples s)) (\<lambda>t.
         print [shape t] s)]"

definition cell_last_samples :: "stmt list" where
  "cell_last_samples =
    [\<lambda>L s. and_then (var ''df'' (df s)) (\<lambda>d.
         and_then (iloc_cols L d (Some (- 10)) None) (\<lambda>t.
         Inr (s\<lparr>last_samples := Some t\<rparr>))),
     \<lambda>L s. and_then (var ''last_samples'' (last_samples s)) (\<lambda>t.
         print [shape t] s)]"

text \<open>Section 4: the genes that start with "A".\<close>

definition cell_sel :: "stmt list" where
  "cell_sel =
    [\<lambda>L s. and_then (var ''df'' (df s)) (\<lambda>d.
         and_then (startswith L (index d) ''A'') (\<lambda>m.
         Inr (s\<lparr>sel := Some m\<rparr>))),
     \<lambda>L s. and_then (var ''sel'' (sel s)) (\<lambda>m.
         print [TypeV ''numpy.ndarray''] s),
     \<lambda>L s. and_then (var ''sel'' (sel s)) (\<lambda>m.
         print [StrV ''Number of genes starting with \"A\":'', sum_mask m] s)]"

definition cell_A_only :: "stmt list" where
  "cell_A_only =
    [\<lambda>L s. and_then (var ''df'' (df s)) (\<lambda>d.
         and_then (var ''sel'' (sel s)) (\<lambda>m.
         and_then (loc_mask L d m) (\<lambda>t.
         Inr (s\<lparr>A_only := Some t\<rparr>)))),
     \<lambda>L s. and_then (var ''A_only'' (A_only s)) (\<lambda>t.
         print [shape t] s)]"

text \<open>Section 5: merging the "A" genes and the "Z" genes along the rows, then along the columns.\<close>

definition cell_combined :: "stmt list" where
  "cell_combined =
    [\<lambda>L s. and_then (var ''df'' (df s)) (\<lambda>d.
         and_then (startswith L (index d) ''Z'') (\<lambda>m.
         and_then (loc_mask L d m) (\<lambda>t.
         Inr (s\<lparr>Z_only := Some t\<rparr>)))),
     \<lambda>L s. and_then (var ''Z_only'' (Z_only s)) (\<lambda>t.
         print [shape t] s),
     \<lambda>L s. and_then (var ''A_only'' (A_only s)) (\<lambda>a.
         and_then (var ''Z_only'' (Z_only s)) (\<lambda>z.
         and_then (concat L [a, z] (Some 0)) (\<lambda>t.
         Inr (s\<lparr>combined := Some t\<rparr>)))),
     \<lambda>L s. and_then (var ''combined'' (combined s)) (\<lambda>t.
         print [shape t] s)]"

definition cell_messy :: "stmt list" where
  "cell_messy =
    [\<lambda>L s. and_then (var ''A_only'' (A_only s)) (\<lambda>a.
         and_then (var ''Z_only'' (Z_only s)) (\<lambda>z.
         and_then (concat L [a, z] (Some 1)) (\<lambda>t.
         Inr (s\<lparr>messy := Some t\<rparr>)))),
     \<lambda>L s. and_then (var ''messy'' (messy s)) (\<lambda>t.
         print [shape t] s)]"

definition cell_print_messy :: "stmt list" where
  "cell_print_messy =
    [\<lambda>L s. and_then (var ''messy'' (messy s)) (\<lambda>t.
         and_then (frame_slice L t None (Some 2)) (\<lambda>u.
         print [FrameV u] s))]"

text \<open>The cells after the one that reads the file, and the whole notebook, in order.\<close>

definition after_read :: "stmt list" where
  "after_read =
     cell_profile @ cell_type @ cell_gene @ cell_loc_sample @ cell_first_samples @
     cell_last_samples @ cell_sel @ cell_A_only @ cell_combined @ cell_messy @
     cell_print_messy"

definition notebook :: "stmt list" where
  "notebook = cell_read @ after_read"

text \<open>
  Running statements in order. There is no handler anywhere in the notebook: the first
  exception ends the run, with the state as the statements before it left it.
\<close>

fun exec :: "pandas \<Rightarrow> stmt list \<Rightarrow> state \<Rightarrow> state \<times> error option" where
  "exec L [] s = (s, None)"
| "exec L (c # cs) s = (case c L s of Inl e \<Rightarrow> (s, Some e) | Inr s' \<Rightarrow> exec L cs s')"

text \<open>A fresh session on a file system: nothing printed, no variable bound.\<close>

definition fresh :: "(string \<rightharpoonup> string) \<Rightarrow> state" where
  "fresh fs = \<lparr>files = fs, stdout = [], expression_file = None, df = None, sample = None,
     profile = None, gene = None, gene_expression = None, profile2 = None,
     first_samples = None, last_samples = None, sel = None, A_only = None, Z_only = None,
     combined = None, messy = None\<rparr>"

section \<open>A model of the library's operations\<close>

text \<open>
  The library's code is not part of the repository. The operations below are modelled from
  the specification's glossary and from what the notebook says about each call; the
  notebook itself never depends on them.
\<close>

text \<open>
  Modelled from the spec: the library's label lookup (retrieving a row or column by its
  name rather than its position). A label is resolved to the position of its first
  occurrence; the specification does not say what a repeated label selects.
\<close>

fun get_loc :: "string list \<Rightarrow> string \<Rightarrow> nat option" where
  "get_loc [] x = None"
| "get_loc (l # ls) x = (if l = x then Some 0 else map_option Suc (get_loc ls x))"

text \<open>
  Modelled from the spec: the library's positional range (a numeric offset range), with
  the bounds as a Python slice reads them: a negative bound counts from the end, and a
  bound outside the sequence is clipped to it.
\<close>

definition slice_bound :: "nat \<Rightarrow> int \<Rightarrow> nat" where
  "slice_bound n i = (if i < 0 then nat (max 0 (int n + i)) else min n (nat i))"

text \<open>
  Modelled from the spec: the library's positional range applied to a sequence: the
  entries from the lower bound up to, and without, the upper bound; an omitted bound is
  the start or the end.
\<close>

definition slice :: "'a list \<Rightarrow> int option \<Rightarrow> int option \<Rightarrow> 'a list" where
  "slice xs a b =
     (let lo = (case a of None \<Rightarrow> 0 | Some i \<Rightarrow> slice_bound (length xs) i);
          hi = (case b of None \<Rightarrow> length xs | Some j \<Rightarrow> slice_bound (length xs) j)
      in take (hi - lo) (drop lo xs))"

text \<open>Modelled from the spec: the library's selection by a Boolean array, entry by entry.\<close>

definition compress :: "bool list \<Rightarrow> 'a list \<Rightarrow> 'a list" where
  "compress m xs = map fst (filter snd (zip xs m))"

text \<open>
  Modelled from the spec: the library's column lookup \<^verbatim>\<open>df[s]\<close>. The notebook says of the
  result that its index corresponds to the genes and that its name is the sample label.
\<close>

definition pd_getitem :: "DataFrame \<Rightarrow> string \<Rightarrow> error + Series" where
  "pd_getitem d s =
     (case get_loc (columns d) s of
        None \<Rightarrow> Inl (KeyError s)
      | Some j \<Rightarrow> Inr \<lparr>sname = s, sindex = index d, svalues = map (\<lambda>r. r ! j) (data d)\<rparr>)"

text \<open>
  Modelled from the spec: the library's label-based row lookup \<^verbatim>\<open>df.loc[g]\<close>. The notebook
  says of the result that its index consists of the sample labels and that its name is
  the gene.
\<close>

definition pd_loc_row :: "DataFrame \<Rightarrow> string \<Rightarrow> error + Series" where
  "pd_loc_row d g =
     (case get_loc (index d) g of
        None \<Rightarrow> Inl (KeyError g)
      | Some i \<Rightarrow> Inr \<lparr>sname = g, sindex = columns d, svalues = data d ! i\<rparr>)"

text \<open>
  Modelled from the spec: the library's \<^verbatim>\<open>df.loc[:, s]\<close>: the row part \<^verbatim>\<open>:\<close> selects
  every row position, the column part is a label.
\<close>

definition pd_loc_col :: "DataFrame \<Rightarrow> string \<Rightarrow> error + Series" where
  "pd_loc_col d s =
     (case get_loc (columns d) s of
        None \<Rightarrow> Inl (KeyError s)
      | Some j \<Rightarrow>
          (let rows = slice [0..<length (index d)] None None
           in Inr \<lparr>sname = s, sindex = map (\<lambda>i. index d ! i) rows,
                   svalues = map (\<lambda>i. data d ! i ! j) rows\<rparr>))"

text \<open>
  Modelled from the spec: the library's Boolean-mask selection \<^verbatim>\<open>df.loc[sel]\<close>; a mask of
  the wrong length is refused.
\<close>

definition pd_loc_mask :: "DataFrame \<Rightarrow> bool list \<Rightarrow> error + DataFrame" where
  "pd_loc_mask d m =
     (if length m \<noteq> length (index d) then Inl (IndexingError ''wrong length'')
      else Inr \<lparr>index = compress m (index d), columns = columns d,
                data = compress m (data d)\<rparr>)"

text \<open>Modelled from the spec: the library's positional slicing of columns \<^verbatim>\<open>df.iloc[:, a:b]\<close>.\<close>

definition pd_iloc_cols :: "DataFrame \<Rightarrow> int option \<Rightarrow> int option \<Rightarrow> error + DataFrame" where
  "pd_iloc_cols d a b =
     Inr \<lparr>index = index d, columns = slice (columns d) a b,
          data = map (\<lambda>r. slice r a b) (data d)\<rparr>"

text \<open>
  Modelled from the spec: the library's \<^verbatim>\<open>equals\<close> on two series: the same labels and the
  same values, a missing value being equal to a missing value at the same place.
\<close>

definition pd_equals :: "Series \<Rightarrow> Series \<Rightarrow> error + bool" where
  "pd_equals p q = Inr (sindex p = sindex q \<and> svalues p = svalues q)"

text \<open>Modelled from the spec: the library's \<^verbatim>\<open>str.startswith\<close> on an index of strings.\<close>

definition pd_startswith :: "string list \<Rightarrow> string \<Rightarrow> error + bool list" where
  "pd_startswith idx p = Inr (map (\<lambda>l. take (length p) l = p) idx)"

text \<open>Modelled from the spec: the library's slicing of a series, \<^verbatim>\<open>p[a:b]\<close>.\<close>

definition pd_series_slice :: "Series \<Rightarrow> int option \<Rightarrow> int option \<Rightarrow> error + Series" where
  "pd_series_slice p a b =
     Inr \<lparr>sname = sname p, sindex = slice (sindex p) a b, svalues = slice (svalues p) a b\<rparr>"

text \<open>Modelled from the spec: the library's slicing of a table's rows, \<^verbatim>\<open>df[a:b]\<close>.\<close>

definition pd_frame_slice :: "DataFrame \<Rightarrow> int option \<Rightarrow> int option \<Rightarrow> error + DataFrame" where
  "pd_frame_slice d a b =
     Inr \<lparr>index = slice (index d) a b, columns = columns d, data = slice (data d) a b\<rparr>"

text \<open>
  Modelled from the spec: the labels the library's concatenation aligns on, the union of
  the tables' labels in order of first appearance.
\<close>

definition union_labels :: "string list list \<Rightarrow> string list" where
  "union_labels ls = rev (remdups (rev (List.concat ls)))"

text \<open>
  Modelled from the spec: the library's alignment of a table's rows to given column labels,
  an unmatched cell being filled with the missing-value marker; a table that already has
  exactly these labels is taken as it is.
\<close>

definition align_columns :: "string list \<Rightarrow> DataFrame \<Rightarrow> val list list" where
  "align_columns cols d =
     (if columns d = cols then data d
      else map (\<lambda>r. map (\<lambda>c. case get_loc (columns d) c of None \<Rightarrow> NaN | Some j \<Rightarrow> r ! j) cols)
             (data d))"

text \<open>
  Modelled from the spec: the library's alignment of a table to a row label: the row with
  that label, or a row of missing-value markers when the table has none.
\<close>

definition align_row :: "DataFrame \<Rightarrow> string \<Rightarrow> val list" where
  "align_row d g =
     (case get_loc (index d) g of
        None \<Rightarrow> replicate (length (columns d)) NaN
      | Some i \<Rightarrow> data d ! i)"

text \<open>
  Modelled from the spec: the library's concatenation \<^verbatim>\<open>pd.concat(objs, axis=)\<close> (combining
  tables along rows or columns, aligning on shared labels and filling unmatched cells with
  the missing-value marker). The notebook says that 0 is the default axis.
\<close>

definition pd_concat :: "DataFrame list \<Rightarrow> nat option \<Rightarrow> error + DataFrame" where
  "pd_concat objs axis =
     (if objs = [] then Inl (ValueError ''No objects to concatenate'')
      else if (case axis of None \<Rightarrow> 0 | Some a \<Rightarrow> a) = 0 then
        (let cols = union_labels (map columns objs)
         in Inr \<lparr>index = List.concat (map index objs), columns = cols,
                 data = List.concat (map (align_columns cols) objs)\<rparr>)
      else if axis = Some 1 then
        (let idx = union_labels (map index objs)
         in Inr \<lparr>index = idx, columns = List.concat (map columns objs),
                 data = map (\<lambda>g. List.concat (map (\<lambda>d. align_row d g) objs)) idx\<rparr>)
      else Inl (ValueError ''No axis''))"

text \<open>Modelled from the spec: the library's splitting of a line of text at a separator.\<close>

fun split_on :: "char \<Rightarrow> string \<Rightarrow> string list" where
  "split_on c [] = [[]]"
| "split_on c (x # xs) =
     (if x = c then [] # split_on c xs
      else (case split_on c xs of [] \<Rightarrow> [[x]] | f # fs \<Rightarrow> (x # f) # fs))"

text \<open>Modelled from the spec: the library's reading of a decimal digit.\<close>

definition digit :: "char \<Rightarrow> nat option" where
  "digit c = (let n = (of_char c :: nat) in if 48 \<le> n \<and> n \<le> 57 then Some (n - 48) else None)"

text \<open>Modelled from the spec: the library's reading of a non-empty run of decimal digits.\<close>

definition digits :: "string \<Rightarrow> nat list option" where
  "digits s = (if s = [] then None else those (map digit s))"

text \<open>Modelled from the spec: the number a run of decimal digits denotes.\<close>

definition number :: "nat list \<Rightarrow> nat" where
  "number ds = foldl (\<lambda>a d. 10 * a + d) 0 ds"

text \<open>
  Modelled from the spec: the library's reading of an unsigned decimal: digits, optionally
  followed by a point and more digits.
\<close>

definition parse_unsigned :: "string \<Rightarrow> rat option" where
  "parse_unsigned s =
     (case split_on (CHR ''.'') s of
        [ip] \<Rightarrow> map_option (\<lambda>i. of_nat (number i)) (digits ip)
      | [ip, fp] \<Rightarrow>
          (case (digits ip, digits fp) of
             (Some i, Some f) \<Rightarrow> Some (of_nat (number (i @ f)) / 10 ^ length f)
           | _ \<Rightarrow> None)
      | _ \<Rightarrow> None)"

text \<open>Modelled from the spec: the library's reading of a decimal expression value, with its sign.\<close>

definition parse_decimal :: "string \<Rightarrow> rat option" where
  "parse_decimal s =
     (case s of
        [] \<Rightarrow> None
      | c # r \<Rightarrow> if c = CHR ''-'' then map_option uminus (parse_unsigned r) else parse_unsigned s)"

text \<open>Modelled from the spec: a row of the file without the field of the index column.\<close>

definition drop_nth :: "nat \<Rightarrow> 'a list \<Rightarrow> 'a list" where
  "drop_nth i xs = take i xs @ drop (Suc i) xs"

text \<open>
  Modelled from the spec: the library's reader \<^verbatim>\<open>pd.read_csv\<close> for the input format (a
  tab-separated text file with a header row of sample identifiers and a leading column of
  gene identifiers, each subsequent cell a decimal expression value). Blank lines are
  skipped. A missing file and a malformed row (a wrong number of fields, or a cell that is
  not a decimal) raise.
\<close>

definition pd_read_csv ::
  "(string \<rightharpoonup> string) \<Rightarrow> string \<Rightarrow> char \<Rightarrow> nat \<Rightarrow> nat \<Rightarrow> error + DataFrame" where
  "pd_read_csv fs path sep header index_col =
     (case fs path of
        None \<Rightarrow> Inl (FileNotFoundError path)
      | Some text \<Rightarrow>
          (case drop header (map (split_on sep) (filter (\<lambda>l. l \<noteq> []) (split_on (CHR 0x0A) text))) of
             [] \<Rightarrow> Inl (ParserError ''No columns to parse from file'')
           | h # rows \<Rightarrow>
               if length h \<le> index_col then Inl (ParserError ''Index column out of range'')
               else if \<not> list_all (\<lambda>r. length r = length h) rows
               then Inl (ParserError ''Error tokenizing data'')
               else
                 (case those (map (\<lambda>r. those (map (map_option Num \<circ> parse_decimal)
                                                  (drop_nth index_col r))) rows) of
                    None \<Rightarrow> Inl (ParserError ''Cell is not a decimal'')
                  | Some cells \<Rightarrow>
                      Inr \<lparr>index = map (\<lambda>r. r ! index_col) rows,
                           columns = drop_nth index_col h, data = cells\<rparr>)))"

text \<open>Modelled from the spec: the library, as the operations above.\<close>

definition pd :: pandas where
  "pd = \<lparr>read_csv = pd_read_csv, getitem = pd_getitem, loc_row = pd_loc_row,
          loc_col = pd_loc_col, loc_mask = pd_loc_mask, iloc_cols = pd_iloc_cols,
          equals = pd_equals, startswith = pd_startswith, concat = pd_concat,
          series_slice = pd_series_slice, frame_slice = pd_frame_slice\<rparr>"

text \<open>
  A small expression file in the input format, at the path the notebook reads, with the
  sample and the gene the notebook asks for.
\<close>

definition example_text :: string where
  "example_text =
     ''Genes'' @ [CHR 0x09] @ ''TCGA-BH-A1EV-01A'' @ [CHR 0x09] @ ''TCGA-B6-A0WW-01A'' @ [CHR 0x0A] @
     ''A1BG'' @ [CHR 0x09] @ ''2.32193'' @ [CHR 0x09] @ ''2.32193'' @ [CHR 0x0A] @
     ''A2M'' @ [CHR 0x09] @ ''7.66424'' @ [CHR 0x09] @ ''8.07841'' @ [CHR 0x0A] @
     ''ZZZ3'' @ [CHR 0x09] @ ''9.5'' @ [CHR 0x09] @ ''10'' @ [CHR 0x0A]"

definition example_files :: "string \<rightharpoonup> string" where
  "example_files = [''../data/brca_expression_5yr_dead.tsv'' \<mapsto> example_text]"

text \<open>The table that file holds.\<close>

definition example_df :: DataFrame where
  "example_df =
     \<lparr>index = [''A1BG'', ''A2M'', ''ZZZ3''],
      columns = [''TCGA-BH-A1EV-01A'', ''TCGA-B6-A0WW-01A''],
      data = [[Num 2.32193, Num 2.32193], [Num 7.66424, Num 8.07841], [Num 9.5, Num 10]]\<rparr>"

text \<open>The same file system with one more file, which the notebook never opens.\<close>

definition example_files_more :: "string \<rightharpoonup> string" where
  "example_files_more = example_files(''notes.txt'' \<mapsto> ''scratch'')"

text \<open>A file whose second data row has two fields too many.\<close>

definition malformed_files :: "string \<rightharpoonup> string" where
  "malformed_files =
     [''../data/brca_expression_5yr_dead.tsv'' \<mapsto>
        ''Genes'' @ [CHR 0x09] @ ''S1'' @ [CHR 0x09] @ ''S2'' @ [CHR 0x0A] @
        ''A1BG'' @ [CHR 0x09] @ ''2.5'' @ [CHR 0x09] @ ''3.5'' @ [CHR 0x0A] @
        ''A2M'' @ [CHR 0x09] @ ''2.5'' @ [CHR 0x09] @ ''3.5'' @ [CHR 0x09] @ ''4.5'' @
          [CHR 0x09] @ ''5.5'' @ [CHR 0x0A]]"

text \<open>A well-formed file that lacks the sample the notebook looks up.\<close>

definition other_files :: "string \<rightharpoonup> string" where
  "other_files =
     [''../data/brca_expression_5yr_dead.tsv'' \<mapsto>
        ''Genes'' @ [CHR 0x09] @ ''S1'' @ [CHR 0x0A] @
        ''A1BG'' @ [CHR 0x09] @ ''2.5'' @ [CHR 0x0A]]"

text \<open>A series and a state in which every variable a statement reads is bound.\<close>

definition example_series :: Series where
  "example_series =
     \<lparr>sname = ''TCGA-B6-A0WW-01A'', sindex = [''A1BG'', ''A2M'', ''ZZZ3''],
      svalues = [Num 2.32193, Num 8.07841, Num 10]\<rparr>"

definition bound_state :: state where
  "bound_state =
     (fresh Map.empty)\<lparr>expression_file := Some ''../data/brca_expression_5yr_dead.tsv'',
        df := Some example_df, sample := Some ''TCGA-B6-A0WW-01A'',
        profile := Some example_series, gene := Some ''A2M'',
        gene_expression := Some example_series, profile2 := Some example_series,
        sel := Some [True, True, False], A_only := Some example_df,
        Z_only := Some example_df, messy := Some example_df\<rparr>"

text \<open>An implementation of the library in which every call raises.\<close>

definition refusing :: pandas where
  "refusing =
     \<lparr>read_csv = (\<lambda>fs p c h i. Inl (ValueError ''refused'')),
      getitem = (\<lambda>d s. Inl (ValueError ''refused'')),
      loc_row = (\<lambda>d g. Inl (ValueError ''refused'')),
      loc_col = (\<lambda>d s. Inl (ValueError ''refused'')),
      loc_mask = (\<lambda>d m. Inl (ValueError ''refused'')),
      iloc_cols = (\<lambda>d a b. Inl (ValueError ''refused'')),
      equals = (\<lambda>p q. Inl (ValueError ''refused'')),
      startswith = (\<lambda>ls p. Inl (ValueError ''refused'')),
      concat = (\<lambda>ds a. Inl (ValueError ''refused'')),
      series_slice = (\<lambda>p a b. Inl (ValueError ''refused'')),
      frame_slice = (\<lambda>d a b. Inl (ValueError ''refused''))\<rparr>"

section \<open>Running statements\<close>

lemmas cell_defs = cell_read_def cell_profile_def cell_type_def cell_gene_def
  cell_loc_sample_def cell_first_samples_def cell_last_samples_def cell_sel_def
  cell_A_only_def cell_combined_def cell_messy_def cell_print_messy_def

lemmas run_defs = and_then_def var_def print_def

lemmas pd_defs = pd_getitem_def pd_loc_row_def pd_loc_col_def pd_loc_mask_def
  pd_iloc_cols_def pd_equals_def pd_startswith_def pd_concat_def pd_series_slice_def
  pd_frame_slice_def slice_def slice_bound_def compress_def union_labels_def
  align_columns_def align_row_def

lemmas read_defs = pd_read_csv_def digits_def digit_def number_def parse_decimal_def
  parse_unsigned_def drop_nth_def

lemma exec_append:
  "exec L (xs @ ys) s =
     (case exec L xs s of (s1, None) \<Rightarrow> exec L ys s1 | (s1, Some e) \<Rightarrow> (s1, Some e))"
  by (induction xs arbitrary: s) (auto split: sum.splits)

text \<open>
  A relation between states that is reflexive and transitive and that every statement of
  a list respects holds between the start and the end of a run of the list.
\<close>

lemma exec_related:
  assumes refl: "\<And>s. R s s"
    and trans: "\<And>a b c. R a b \<Longrightarrow> R b c \<Longrightarrow> R a c"
    and step: "\<And>c s s'. c \<in> set cs \<Longrightarrow> c L s = Inr s' \<Longrightarrow> R s s'"
  shows "exec L cs s = (s', r) \<Longrightarrow> R s s'"
  using step
proof (induction cs arbitrary: s)
  case Nil
  then show ?case using refl by simp
next
  case (Cons c cs)
  show ?case
  proof (cases "c L s")
    case (Inl e)
    with Cons.prems(1) show ?thesis using refl by simp
  next
    case (Inr s1)
    with Cons.prems(1) have run: "exec L cs s1 = (s', r)" by simp
    have "R s s1" using Cons.prems(2) [of c s s1] Inr by simp
    moreover have "R s1 s'"
    proof (rule Cons.IH [OF run])
      fix d t t' assume "d \<in> set cs" "d L t = Inr t'"
      then show "R t t'" using Cons.prems(2) [of d t t'] by simp
    qed
    ultimately show ?thesis using trans by blast
  qed
qed

text \<open>Statements that do not look at the file system run the same on any file system.\<close>

lemma exec_ignores_files:
  assumes "\<And>c s. c \<in> set cs \<Longrightarrow>
     c L (s\<lparr>files := fs\<rparr>) = (case c L s of Inl e \<Rightarrow> Inl e | Inr t \<Rightarrow> Inr (t\<lparr>files := fs\<rparr>))"
  shows "exec L cs (s\<lparr>files := fs\<rparr>) = (case exec L cs s of (t, r) \<Rightarrow> (t\<lparr>files := fs\<rparr>, r))"
  using assms
proof (induction cs arbitrary: s)
  case Nil
  then show ?case by simp
next
  case (Cons c cs)
  have c: "c L (s\<lparr>files := fs\<rparr>) = (case c L s of Inl e \<Rightarrow> Inl e | Inr t \<Rightarrow> Inr (t\<lparr>files := fs\<rparr>))"
    using Cons.prems [of c s] by simp
  have rest: "\<And>t. exec L cs (t\<lparr>files := fs\<rparr>) = (case exec L cs t of (u, r) \<Rightarrow> (u\<lparr>files := fs\<rparr>, r))"
  proof (rule Cons.IH)
    fix d t assume "d \<in> set cs"
    then show "d L (t\<lparr>files := fs\<rparr>) = (case d L t of Inl e \<Rightarrow> Inl e | Inr u \<Rightarrow> Inr (u\<lparr>files := fs\<rparr>))"
      using Cons.prems [of d t] by simp
  qed
  show ?case
    by (cases "c L s") (simp_all add: c rest)
qed

text \<open>A statement that raises ends the run there.\<close>

lemma exec_raises:
  assumes "k < length cs" and "exec L (take k cs) s = (s1, None)" and "(cs ! k) L s1 = Inl e"
  shows "exec L cs s = (s1, Some e)"
proof -
  have "cs = take k cs @ (cs ! k) # drop (Suc k) cs"
    using assms(1) by (simp add: id_take_nth_drop)
  then have "exec L cs s = exec L (take k cs @ (cs ! k) # drop (Suc k) cs) s"
    by simp
  also have "\<dots> = (s1, Some e)"
    using assms(2,3) by (simp only: exec_append) simp
  finally show ?thesis .
qed

subsection \<open>The statements of the notebook\<close>

lemma notebook_list:
  "notebook = cell_read @ cell_profile @ cell_type @ cell_gene @ cell_loc_sample @
     cell_first_samples @ cell_last_samples @ cell_sel @ cell_A_only @ cell_combined @
     cell_messy @ cell_print_messy"
  by (simp add: notebook_def after_read_def)

lemma exec_read:
  "read_csv L (files s) ''../data/brca_expression_5yr_dead.tsv'' (CHR 0x09) 0 0 = Inr d \<Longrightarrow>
   exec L (take 3 cell_read) s =
     (s\<lparr>stdout := stdout s @ [[StrV ''Path to expression file:'',
           StrV ''../data/brca_expression_5yr_dead.tsv'']],
        expression_file := Some ''../data/brca_expression_5yr_dead.tsv'',
        df := Some d\<rparr>, None)"
  by (simp add: cell_read_def run_defs)

lemma exec_read_fails:
  "read_csv L (files s) ''../data/brca_expression_5yr_dead.tsv'' (CHR 0x09) 0 0 = Inl e \<Longrightarrow>
   exec L notebook s =
     (s\<lparr>stdout := stdout s @ [[StrV ''Path to expression file:'',
           StrV ''../data/brca_expression_5yr_dead.tsv'']],
        expression_file := Some ''../data/brca_expression_5yr_dead.tsv''\<rparr>, Some e)"
  by (simp add: notebook_def cell_read_def run_defs)

lemma take_notebook:
  assumes "3 \<le> n"
  shows "take n notebook = take 3 cell_read @ take (n - 3) (drop 3 cell_read @ after_read)"
proof -
  have len: "length (take 3 cell_read) = 3" by (simp add: cell_read_def)
  have "notebook = take 3 cell_read @ (drop 3 cell_read @ after_read)"
    by (simp add: notebook_def)
  then have "take n notebook = take n (take 3 cell_read @ (drop 3 cell_read @ after_read))"
    by simp
  also have "\<dots> = take 3 cell_read @ take (n - 3) (drop 3 cell_read @ after_read)"
    using assms len by (simp only: take_append) simp
  finally show ?thesis .
qed

lemma after_read_keeps_df:
  "c \<in> set (drop 3 cell_read @ after_read) \<Longrightarrow> c L s = Inr s' \<Longrightarrow> df s' = df s"
  unfolding after_read_def cell_defs
  by (auto simp: run_defs split: option.splits sum.splits)

lemma notebook_keeps_files:
  "c \<in> set notebook \<Longrightarrow> c L s = Inr s' \<Longrightarrow>
     files s' = files s \<and> (\<exists>out. stdout s' = stdout s @ out)"
  unfolding notebook_def after_read_def cell_defs
  by (auto simp: run_defs split: option.splits sum.splits)

lemma stmt_ignores_files:
  "c \<in> set (drop 3 cell_read @ after_read) \<Longrightarrow>
   c L (s\<lparr>files := fs\<rparr>) = (case c L s of Inl e \<Rightarrow> Inl e | Inr t \<Rightarrow> Inr (t\<lparr>files := fs\<rparr>))"
  unfolding after_read_def cell_defs
  by (auto simp: run_defs split: option.splits sum.splits)

lemma notebook_reads_once:
  assumes "read_csv L fs ''../data/brca_expression_5yr_dead.tsv'' (CHR 0x09) 0 0 =
           read_csv L (files s) ''../data/brca_expression_5yr_dead.tsv'' (CHR 0x09) 0 0"
  shows "exec L notebook (s\<lparr>files := fs\<rparr>) =
           (case exec L notebook s of (t, r) \<Rightarrow> (t\<lparr>files := fs\<rparr>, r))"
proof -
  let ?p = "''../data/brca_expression_5yr_dead.tsv''"
  let ?s2 = "s\<lparr>stdout := stdout s @ [[StrV ''Path to expression file:'', StrV ?p]],
        expression_file := Some ?p\<rparr>"
  let ?rest = "drop 3 cell_read @ after_read"
  have nb: "notebook = take 3 cell_read @ ?rest" by (simp add: notebook_def)
  show ?thesis
  proof (cases "read_csv L (files s) ?p (CHR 0x09) 0 0")
    case (Inl e)
    then have "read_csv L (files (s\<lparr>files := fs\<rparr>)) ?p (CHR 0x09) 0 0 = Inl e"
      using assms by simp
    from exec_read_fails [OF this] exec_read_fails [OF Inl]
    show ?thesis by (cases s) simp
  next
    case (Inr d)
    then have fsd: "read_csv L (files (s\<lparr>files := fs\<rparr>)) ?p (CHR 0x09) 0 0 = Inr d"
      using assms by simp
    have a: "exec L notebook s = exec L ?rest (?s2\<lparr>df := Some d\<rparr>)"
      by (subst nb) (simp add: exec_append exec_read [OF Inr])
    have "exec L (take 3 cell_read) (s\<lparr>files := fs\<rparr>) =
            ((?s2\<lparr>df := Some d\<rparr>)\<lparr>files := fs\<rparr>, None)"
      using exec_read [OF fsd] by (cases s) simp
    then have b: "exec L notebook (s\<lparr>files := fs\<rparr>) =
            exec L ?rest ((?s2\<lparr>df := Some d\<rparr>)\<lparr>files := fs\<rparr>)"
      by (subst nb) (simp only: exec_append prod.case option.case)
    show ?thesis
      unfolding a b by (rule exec_ignores_files) (rule stmt_ignores_files)
  qed
qed

subsection \<open>The example files\<close>

lemma example_read:
  "pd_read_csv example_files ''../data/brca_expression_5yr_dead.tsv'' (CHR 0x09) 0 0 =
     Inr example_df"
  by (simp add: example_df_def example_files_def example_text_def read_defs)

lemma example_more_read:
  "pd_read_csv example_files_more ''../data/brca_expression_5yr_dead.tsv'' (CHR 0x09) 0 0 =
     Inr example_df"
  using example_read by (simp add: example_files_more_def pd_read_csv_def)

lemma malformed_read:
  "pd_read_csv malformed_files ''../data/brca_expression_5yr_dead.tsv'' (CHR 0x09) 0 0 =
     Inl (ParserError ''Error tokenizing data'')"
  by (simp add: malformed_files_def read_defs)

lemma example_run: "snd (exec pd notebook (fresh example_files)) = None"
  by (simp add: notebook_def after_read_def cell_defs pd_def fresh_def run_defs example_read
      example_df_def pd_defs shape_def sum_mask_def)

lemma other_read:
  "pd_read_csv other_files ''../data/brca_expression_5yr_dead.tsv'' (CHR 0x09) 0 0 =
     Inr \<lparr>index = [''A1BG''], columns = [''S1''], data = [[Num 2.5]]\<rparr>"
  by (simp add: other_files_def read_defs)

lemma other_run:
  "exec pd (take 7 notebook) (fresh other_files) =
     ((fresh other_files)\<lparr>stdout :=
         [[StrV ''Path to expression file:'', StrV ''../data/brca_expression_5yr_dead.tsv''],
          [StrV ''Matrix shape:'', TupleV [1, 1]],
          [StrV ''Genes:'', ListV [''A1BG'']],
          [StrV ''Samples:'', ListV [''S1'']]],
        expression_file := Some ''../data/brca_expression_5yr_dead.tsv'',
        df := Some \<lparr>index = [''A1BG''], columns = [''S1''], data = [[Num 2.5]]\<rparr>,
        sample := Some ''TCGA-B6-A0WW-01A''\<rparr>, None)"
  by (simp add: notebook_def after_read_def cell_defs pd_def fresh_def run_defs other_read
      shape_def)

lemma other_raises:
  "(notebook ! 7) pd ((fresh other_files)\<lparr>stdout :=
         [[StrV ''Path to expression file:'', StrV ''../data/brca_expression_5yr_dead.tsv''],
          [StrV ''Matrix shape:'', TupleV [1, 1]],
          [StrV ''Genes:'', ListV [''A1BG'']],
          [StrV ''Samples:'', ListV [''S1'']]],
        expression_file := Some ''../data/brca_expression_5yr_dead.tsv'',
        df := Some \<lparr>index = [''A1BG''], columns = [''S1''], data = [[Num 2.5]]\<rparr>,
        sample := Some ''TCGA-B6-A0WW-01A''\<rparr>) = Inl (KeyError ''TCGA-B6-A0WW-01A'')"
  by (simp add: notebook_def after_read_def cell_defs pd_def fresh_def run_defs pd_getitem_def)

subsection \<open>The model of the library\<close>

lemma those_length: "those xs = Some ys \<Longrightarrow> length ys = length xs"
  by (induction xs arbitrary: ys) (auto split: option.splits)

lemma read_csv_rows:
  assumes "pd_read_csv fs path sep header index_col = Inr d"
  shows "length (data d) = length (index d)"
  using assms
  by (auto simp: pd_read_csv_def dest!: those_length split: option.splits list.splits if_splits)

lemma slice_all: "slice xs None None = xs"
  by (simp add: slice_def)

lemma loc_col_getitem:
  assumes "length (data d) = length (index d)"
  shows "pd_loc_col d s = pd_getitem d s"
proof (cases "get_loc (columns d) s")
  case None
  then show ?thesis by (simp add: pd_loc_col_def pd_getitem_def)
next
  case (Some j)
  have "map (\<lambda>i. index d ! i) [0..<length (index d)] = index d"
    by (rule map_nth)
  moreover have "map (\<lambda>i. data d ! i ! j) [0..<length (index d)] = map (\<lambda>r. r ! j) (data d)"
  proof -
    have "map (\<lambda>i. data d ! i ! j) [0..<length (data d)] =
          map (\<lambda>r. r ! j) (map (\<lambda>i. data d ! i) [0..<length (data d)])"
      by simp
    also have "\<dots> = map (\<lambda>r. r ! j) (data d)" by (simp only: map_nth)
    finally show ?thesis using assms by simp
  qed
  ultimately show ?thesis
    using Some by (simp add: pd_loc_col_def pd_getitem_def slice_all)
qed

lemma get_loc_Some: "x \<in> set ls \<Longrightarrow> \<exists>j. get_loc ls x = Some j"
  by (induction ls) auto

lemma check_prints_True:
  assumes "exec pd (take 18 notebook) st = (st', None)"
  shows "last (stdout st') = [BoolV True]"
proof -
  have t: "take 18 notebook = cell_read @ cell_profile @ cell_type @ cell_gene @ cell_loc_sample"
    by (simp add: notebook_def after_read_def cell_defs)
  show ?thesis
    using assms unfolding t cell_defs
    by (auto simp: run_defs pd_def pd_equals_def loc_col_getitem read_csv_rows
        split: option.splits sum.splits)
qed


lemma example_run_check:
  "snd (exec pd (take 18 notebook) (fresh example_files)) = None"
  by (simp add: notebook_def after_read_def cell_defs pd_def fresh_def run_defs example_read
      example_df_def pd_defs shape_def sum_mask_def)

section \<open>Properties of the notebook\<close>

text \<open>
  Claim C4. Whatever the library raises while loading the expression file (a missing file,
  a malformed row) reaches the caller unhandled: for every implementation of the library
  and every starting state, if \<^verbatim>\<open>pd.read_csv\<close> raises \<open>e\<close> then the run of the notebook ends
  with \<open>e\<close>, having only bound the path and printed it. Nor is any other call into the
  library wrapped in a handler: at each of the call sites (statements 2, 7, 8, 11, 12, 16,
  17, 18, 20, 22, 25, 27 with its two calls, 29, 31 and 33, counted from 0), in any state
  in which the variables the statement reads are bound, the statement raises what the
  call raises; and whenever the statements before position \<open>k\<close> complete and statement \<open>k\<close>
  raises, the run ends there with that exception.
\<close>

theorem read_failure_propagates:
  "(read_csv L (files s) ''../data/brca_expression_5yr_dead.tsv'' (CHR 0x09) 0 0 = Inl e \<longrightarrow>
      exec L notebook s =
        (s\<lparr>stdout := stdout s @ [[StrV ''Path to expression file:'',
              StrV ''../data/brca_expression_5yr_dead.tsv'']],
           expression_file := Some ''../data/brca_expression_5yr_dead.tsv''\<rparr>, Some e)) \<and>
   (expression_file s = Some f \<longrightarrow> read_csv L (files s) f (CHR 0x09) 0 0 = Inl e \<longrightarrow>
      (notebook ! 2) L s = Inl e) \<and>
   (df s = Some d \<longrightarrow> sample s = Some x \<longrightarrow> getitem L d x = Inl e \<longrightarrow>
      (notebook ! 7) L s = Inl e) \<and>
   (profile s = Some p \<longrightarrow> series_slice L p None (Some 3) = Inl e \<longrightarrow>
      (notebook ! 8) L s = Inl e) \<and>
   (df s = Some d \<longrightarrow> gene s = Some g \<longrightarrow> loc_row L d g = Inl e \<longrightarrow>
      (notebook ! 11) L s = Inl e) \<and>
   (gene_expression s = Some r \<longrightarrow> series_slice L r None (Some 3) = Inl e \<longrightarrow>
      (notebook ! 12) L s = Inl e) \<and>
   (df s = Some d \<longrightarrow> sample s = Some x \<longrightarrow> loc_col L d x = Inl e \<longrightarrow>
      (notebook ! 16) L s = Inl e) \<and>
   (profile s = Some p \<longrightarrow> profile2 s = Some q \<longrightarrow> equals L p q = Inl e \<longrightarrow>
      (notebook ! 17) L s = Inl e) \<and>
   (df s = Some d \<longrightarrow> iloc_cols L d None (Some 10) = Inl e \<longrightarrow>
      (notebook ! 18) L s = Inl e) \<and>
   (df s = Some d \<longrightarrow> iloc_cols L d (Some (- 10)) None = Inl e \<longrightarrow>
      (notebook ! 20) L s = Inl e) \<and>
   (df s = Some d \<longrightarrow> startswith L (index d) ''A'' = Inl e \<longrightarrow>
      (notebook ! 22) L s = Inl e) \<and>
   (df s = Some d \<longrightarrow> sel s = Some m \<longrightarrow> loc_mask L d m = Inl e \<longrightarrow>
      (notebook ! 25) L s = Inl e) \<and>
   (df s = Some d \<longrightarrow> startswith L (index d) ''Z'' = Inl e \<longrightarrow>
      (notebook ! 27) L s = Inl e) \<and>
   (df s = Some d \<longrightarrow> startswith L (index d) ''Z'' = Inr mz \<longrightarrow> loc_mask L d mz = Inl e \<longrightarrow>
      (notebook ! 27) L s = Inl e) \<and>
   (A_only s = Some a \<longrightarrow> Z_only s = Some z \<longrightarrow> concat L [a, z] (Some 0) = Inl e \<longrightarrow>
      (notebook ! 29) L s = Inl e) \<and>
   (A_only s = Some a \<longrightarrow> Z_only s = Some z \<longrightarrow> concat L [a, z] (Some 1) = Inl e \<longrightarrow>
      (notebook ! 31) L s = Inl e) \<and>
   (messy s = Some t \<longrightarrow> frame_slice L t None (Some 2) = Inl e \<longrightarrow>
      (notebook ! 33) L s = Inl e) \<and>
   (k < length notebook \<longrightarrow> exec L (take k notebook) s = (s1, None) \<longrightarrow>
      (notebook ! k) L s1 = Inl e1 \<longrightarrow> exec L notebook s = (s1, Some e1))"
proof -
  have run: "read_csv L (files s) ''../data/brca_expression_5yr_dead.tsv'' (CHR 0x09) 0 0 = Inl e \<longrightarrow>
      exec L notebook s =
        (s\<lparr>stdout := stdout s @ [[StrV ''Path to expression file:'',
              StrV ''../data/brca_expression_5yr_dead.tsv'']],
           expression_file := Some ''../data/brca_expression_5yr_dead.tsv''\<rparr>, Some e)"
    using exec_read_fails [of L s e] by blast
  have ends: "k < length notebook \<longrightarrow> exec L (take k notebook) s = (s1, None) \<longrightarrow>
      (notebook ! k) L s1 = Inl e1 \<longrightarrow> exec L notebook s = (s1, Some e1)"
    using exec_raises [of k notebook L s s1 e1] by blast
  show ?thesis
    by (intro conjI run ends) (simp_all add: notebook_list cell_defs run_defs)
qed

theorem read_failure_propagates_witness:
  "read_csv pd (files (fresh Map.empty)) ''../data/brca_expression_5yr_dead.tsv'' (CHR 0x09) 0 0 =
     Inl (FileNotFoundError ''../data/brca_expression_5yr_dead.tsv'') \<and>
   snd (exec pd notebook (fresh Map.empty)) = Some (FileNotFoundError ''../data/brca_expression_5yr_dead.tsv'') \<and>
   read_csv pd (files (fresh malformed_files)) ''../data/brca_expression_5yr_dead.tsv'' (CHR 0x09) 0 0 =
     Inl (ParserError ''Error tokenizing data'') \<and>
   snd (exec pd notebook (fresh malformed_files)) = Some (ParserError ''Error tokenizing data'') \<and>
   df bound_state = Some example_df \<and> sample bound_state = Some ''TCGA-B6-A0WW-01A'' \<and>
   getitem refusing example_df ''TCGA-B6-A0WW-01A'' = Inl (ValueError ''refused'') \<and>
   concat refusing [example_df, example_df] (Some 1) = Inl (ValueError ''refused'') \<and>
   (notebook ! 2) refusing bound_state = Inl (ValueError ''refused'') \<and>
   (notebook ! 7) refusing bound_state = Inl (ValueError ''refused'') \<and>
   (notebook ! 8) refusing bound_state = Inl (ValueError ''refused'') \<and>
   (notebook ! 11) refusing bound_state = Inl (ValueError ''refused'') \<and>
   (notebook ! 12) refusing bound_state = Inl (ValueError ''refused'') \<and>
   (notebook ! 16) refusing bound_state = Inl (ValueError ''refused'') \<and>
   (notebook ! 17) refusing bound_state = Inl (ValueError ''refused'') \<and>
   (notebook ! 18) refusing bound_state = Inl (ValueError ''refused'') \<and>
   (notebook ! 20) refusing bound_state = Inl (ValueError ''refused'') \<and>
   (notebook ! 22) refusing bound_state = Inl (ValueError ''refused'') \<and>
   (notebook ! 25) refusing bound_state = Inl (ValueError ''refused'') \<and>
   (notebook ! 27) refusing bound_state = Inl (ValueError ''refused'') \<and>
   (notebook ! 29) refusing bound_state = Inl (ValueError ''refused'') \<and>
   (notebook ! 31) refusing bound_state = Inl (ValueError ''refused'') \<and>
   (notebook ! 33) refusing bound_state = Inl (ValueError ''refused'') \<and>
   startswith (refusing\<lparr>startswith := pd_startswith\<rparr>) (index example_df) ''Z'' =
     Inr [False, False, True] \<and>
   loc_mask (refusing\<lparr>startswith := pd_startswith\<rparr>) example_df [False, False, True] = Inl (ValueError ''refused'') \<and>
   (notebook ! 27) (refusing\<lparr>startswith := pd_startswith\<rparr>) bound_state = Inl (ValueError ''refused'') \<and>
   (7::nat) < length notebook \<and>
   snd (exec pd (take 7 notebook) (fresh other_files)) = None \<and>
   (notebook ! 7) pd (fst (exec pd (take 7 notebook) (fresh other_files))) =
     Inl (KeyError ''TCGA-B6-A0WW-01A'') \<and>
   snd (exec pd notebook (fresh other_files)) = Some (KeyError ''TCGA-B6-A0WW-01A'')"
proof -
  have a: "read_csv pd (files (fresh Map.empty)) ''../data/brca_expression_5yr_dead.tsv'' (CHR 0x09) 0 0 =
      Inl (FileNotFoundError ''../data/brca_expression_5yr_dead.tsv'')"
    by (simp add: pd_def fresh_def pd_read_csv_def)
  have b: "read_csv pd (files (fresh malformed_files)) ''../data/brca_expression_5yr_dead.tsv'' (CHR 0x09) 0 0 =
      Inl (ParserError ''Error tokenizing data'')"
    by (simp add: pd_def fresh_def malformed_read)
  have c: "(7::nat) < length notebook"
    by (simp add: notebook_def after_read_def cell_defs)
  note d = other_run
  have e: "(notebook ! 7) pd (fst (exec pd (take 7 notebook) (fresh other_files))) =
      Inl (KeyError ''TCGA-B6-A0WW-01A'')"
    by (simp only: other_run fst_conv other_raises)
  from read_failure_propagates [where L = pd and s = "fresh Map.empty"
      and e = "FileNotFoundError ''../data/brca_expression_5yr_dead.tsv''"] a
  have r1: "snd (exec pd notebook (fresh Map.empty)) = Some (FileNotFoundError ''../data/brca_expression_5yr_dead.tsv'')"
    by simp
  from read_failure_propagates [where L = pd and s = "fresh malformed_files"
      and e = "ParserError ''Error tokenizing data''"] b
  have r2: "snd (exec pd notebook (fresh malformed_files)) =
      Some (ParserError ''Error tokenizing data'')"
    by simp
  from read_failure_propagates [where L = pd and s = "fresh other_files" and k = 7
      and ?s1.0 = "fst (exec pd (take 7 notebook) (fresh other_files))"
      and ?e1.0 = "KeyError ''TCGA-B6-A0WW-01A''"] c d e
  have r3: "snd (exec pd notebook (fresh other_files)) = Some (KeyError ''TCGA-B6-A0WW-01A'')"
    by simp
  have vars: "expression_file bound_state = Some ''../data/brca_expression_5yr_dead.tsv''"
    "df bound_state = Some example_df" "sample bound_state = Some ''TCGA-B6-A0WW-01A''"
    "profile bound_state = Some example_series" "gene bound_state = Some ''A2M''"
    "gene_expression bound_state = Some example_series"
    "profile2 bound_state = Some example_series" "sel bound_state = Some [True, True, False]"
    "A_only bound_state = Some example_df" "Z_only bound_state = Some example_df"
    "messy bound_state = Some example_df"
    by (simp_all add: bound_state_def fresh_def)
  have sites: "(notebook ! 2) refusing bound_state = Inl (ValueError ''refused'') \<and> (notebook ! 7) refusing bound_state = Inl (ValueError ''refused'') \<and> (notebook ! 8) refusing bound_state = Inl (ValueError ''refused'') \<and> (notebook ! 11) refusing bound_state = Inl (ValueError ''refused'') \<and> (notebook ! 12) refusing bound_state = Inl (ValueError ''refused'') \<and> (notebook ! 16) refusing bound_state = Inl (ValueError ''refused'') \<and> (notebook ! 17) refusing bound_state = Inl (ValueError ''refused'') \<and> (notebook ! 18) refusing bound_state = Inl (ValueError ''refused'') \<and> (notebook ! 20) refusing bound_state = Inl (ValueError ''refused'') \<and> (notebook ! 22) refusing bound_state = Inl (ValueError ''refused'') \<and> (notebook ! 25) refusing bound_state = Inl (ValueError ''refused'') \<and> (notebook ! 27) refusing bound_state = Inl (ValueError ''refused'') \<and> (notebook ! 29) refusing bound_state = Inl (ValueError ''refused'') \<and> (notebook ! 31) refusing bound_state = Inl (ValueError ''refused'') \<and> (notebook ! 33) refusing bound_state = Inl (ValueError ''refused'')"
    using read_failure_propagates [where L = refusing and s = bound_state
      and e = "ValueError ''refused''" and f = "''../data/brca_expression_5yr_dead.tsv''"
      and d = example_df and x = "''TCGA-B6-A0WW-01A''" and p = example_series and g = "''A2M''"
      and r = example_series and q = example_series and m = "[True, True, False]"
      and a = example_df and z = example_df and t = example_df] vars
    by (simp add: refusing_def)
  have zs: "startswith (refusing\<lparr>startswith := pd_startswith\<rparr>) (index example_df) ''Z'' =
      Inr [False, False, True]"
    by (simp add: pd_startswith_def example_df_def)
  have lm: "loc_mask (refusing\<lparr>startswith := pd_startswith\<rparr>) example_df [False, False, True] =
      Inl (ValueError ''refused'')"
    by (simp add: refusing_def)
  have site27: "(notebook ! 27) (refusing\<lparr>startswith := pd_startswith\<rparr>) bound_state = Inl (ValueError ''refused'')"
    using read_failure_propagates [where L = "refusing\<lparr>startswith := pd_startswith\<rparr>"
      and s = bound_state and e = "ValueError ''refused''" and d = example_df
      and mz = "[False, False, True]"] vars(2) zs lm
    by simp
  show ?thesis
    using a b c d e r1 r2 r3 vars(2,3) sites zs lm site27 by (simp add: refusing_def)
qed

text \<open>
  Claim C7. The table loaded from the text file is never changed after loading: for every
  implementation of the library, at every point of the run after the statement that reads
  the file, the variable \<^verbatim>\<open>df\<close> holds exactly the table that \<^verbatim>\<open>pd.read_csv\<close> returned.
  Every later statement binds the result of its call to a variable of its own.
\<close>

theorem df_never_mutated:
  assumes "read_csv L (files s) ''../data/brca_expression_5yr_dead.tsv'' (CHR 0x09) 0 0 = Inr d"
    and "3 \<le> n"
    and "exec L (take n notebook) s = (s', r)"
  shows "df s' = Some d"
proof -
  let ?s3 = "s\<lparr>stdout := stdout s @ [[StrV ''Path to expression file:'',
           StrV ''../data/brca_expression_5yr_dead.tsv'']],
        expression_file := Some ''../data/brca_expression_5yr_dead.tsv'',
        df := Some d\<rparr>"
  let ?rest = "take (n - 3) (drop 3 cell_read @ after_read)"
  have "exec L (take n notebook) s = exec L ?rest ?s3"
    using assms(2) by (simp add: take_notebook exec_append exec_read [OF assms(1)])
  with assms(3) have run: "exec L ?rest ?s3 = (s', r)" by simp
  have "df s' = df ?s3"
  proof (rule exec_related [where R = "\<lambda>a b. df b = df a" and cs = ?rest, OF _ _ _ run])
    fix c t t' assume "c \<in> set ?rest" "c L t = Inr t'"
    then show "df t' = df t"
      using after_read_keeps_df [of c L t t'] by (meson in_set_takeD)
  qed simp_all
  then show ?thesis by simp
qed

theorem df_never_mutated_witness:
  "read_csv pd (files (fresh example_files)) ''../data/brca_expression_5yr_dead.tsv'' (CHR 0x09) 0 0 =
     Inr example_df \<and>
   (3::nat) \<le> 34 \<and>
   take 34 notebook = notebook \<and>
   snd (exec pd (take 34 notebook) (fresh example_files)) = None \<and>
   df (fst (exec pd (take 34 notebook) (fresh example_files))) = Some example_df"
proof -
  have a: "read_csv pd (files (fresh example_files)) ''../data/brca_expression_5yr_dead.tsv''
             (CHR 0x09) 0 0 = Inr example_df"
    by (simp add: pd_def fresh_def example_read)
  have b: "(3::nat) \<le> 34" by simp
  have c: "take 34 notebook = notebook"
    by (simp add: notebook_def after_read_def cell_defs)
  have run: "exec pd (take 34 notebook) (fresh example_files) =
      (fst (exec pd (take 34 notebook) (fresh example_files)), None)"
    using example_run unfolding c by (metis prod.collapse)
  show ?thesis
    using a c example_run df_never_mutated [OF a b run] by simp
qed

text \<open>
  Claim C8. The only output of the notebook is console text: a run leaves the file system
  as it was and only appends to what has been printed. The file system is consulted in one
  place, the read of the input file: on any other file system on which that read gives
  the same result, the run is the same.
\<close>

theorem only_output_is_stdout:
  assumes "exec L notebook s = (s', r)"
  shows "files s' = files s \<and> (\<exists>out. stdout s' = stdout s @ out) \<and>
     (\<forall>fs. read_csv L fs ''../data/brca_expression_5yr_dead.tsv'' (CHR 0x09) 0 0 =
             read_csv L (files s) ''../data/brca_expression_5yr_dead.tsv'' (CHR 0x09) 0 0 \<longrightarrow>
           exec L notebook (s\<lparr>files := fs\<rparr>) = (s'\<lparr>files := fs\<rparr>, r))"
proof -
  have "files s' = files s \<and> (\<exists>out. stdout s' = stdout s @ out)"
  proof (rule exec_related [where R = "\<lambda>a b. files b = files a \<and> (\<exists>out. stdout b = stdout a @ out)"
        and cs = notebook, OF _ _ _ assms])
    fix c t t' assume "c \<in> set notebook" "c L t = Inr t'"
    then show "files t' = files t \<and> (\<exists>out. stdout t' = stdout t @ out)"
      by (rule notebook_keeps_files)
  qed auto
  moreover have "\<forall>fs. read_csv L fs ''../data/brca_expression_5yr_dead.tsv'' (CHR 0x09) 0 0 =
             read_csv L (files s) ''../data/brca_expression_5yr_dead.tsv'' (CHR 0x09) 0 0 \<longrightarrow>
           exec L notebook (s\<lparr>files := fs\<rparr>) = (s'\<lparr>files := fs\<rparr>, r)"
    using notebook_reads_once [of L _ s] assms by simp
  ultimately show ?thesis by blast
qed

theorem only_output_is_stdout_witness:
  "snd (exec pd notebook (fresh example_files)) = None \<and>
   files (fst (exec pd notebook (fresh example_files))) = example_files \<and>
   length (stdout (fst (exec pd notebook (fresh example_files)))) = 19 \<and>
   read_csv pd example_files_more ''../data/brca_expression_5yr_dead.tsv'' (CHR 0x09) 0 0 =
     read_csv pd (files (fresh example_files)) ''../data/brca_expression_5yr_dead.tsv'' (CHR 0x09) 0 0 \<and>
   exec pd notebook ((fresh example_files)\<lparr>files := example_files_more\<rparr>) =
     ((fst (exec pd notebook (fresh example_files)))\<lparr>files := example_files_more\<rparr>, None)"
proof -
  have a: "exec pd notebook (fresh example_files) =
      (fst (exec pd notebook (fresh example_files)), None)"
    using example_run by (metis prod.collapse)
  have b: "read_csv pd example_files_more ''../data/brca_expression_5yr_dead.tsv'' (CHR 0x09) 0 0 =
     read_csv pd (files (fresh example_files)) ''../data/brca_expression_5yr_dead.tsv'' (CHR 0x09) 0 0"
    by (simp add: pd_def fresh_def example_read example_more_read)
  have c: "length (stdout (fst (exec pd notebook (fresh example_files)))) = 19"
    by (simp add: notebook_def after_read_def cell_defs pd_def fresh_def run_defs example_read
      example_df_def pd_defs shape_def sum_mask_def)
  have d: "files (fresh example_files) = example_files" by (simp add: fresh_def)
  show ?thesis
    using only_output_is_stdout [OF a] b c d example_run by simp
qed

section \<open>A property of the library's operations\<close>

text \<open>
  Claim C1. For every table loaded from the expression file and every column label \<open>s\<close> of
  it, selecting the column by plain indexing, \<^verbatim>\<open>df[s]\<close>, and by label-based indexing,
  \<^verbatim>\<open>df.loc[:, s]\<close>, give the same series, and \<^verbatim>\<open>equals\<close> on the two is \<^verbatim>\<open>True\<close>; whenever the
  notebook runs as far as its check \<^verbatim>\<open>print(profile.equals(profile2))\<close>, the line printed
  is \<^verbatim>\<open>True\<close>. The library is the model above.
\<close>

theorem column_lookup_equals_loc:
  "(read_csv pd fs path sep header index_col = Inr d \<longrightarrow> s \<in> set (columns d) \<longrightarrow>
      (\<exists>p q. getitem pd d s = Inr p \<and> loc_col pd d s = Inr q \<and> q = p \<and>
             equals pd p q = Inr True)) \<and>
   (exec pd (take 18 notebook) st = (st', None) \<longrightarrow> last (stdout st') = [BoolV True])"
proof (intro conjI impI)
  assume rd: "read_csv pd fs path sep header index_col = Inr d" and s: "s \<in> set (columns d)"
  from rd have rows: "length (data d) = length (index d)"
    by (simp add: pd_def read_csv_rows)
  from s obtain j where "get_loc (columns d) s = Some j"
    using get_loc_Some by blast
  then obtain p where p: "pd_getitem d s = Inr p"
    by (simp add: pd_getitem_def)
  then have "pd_loc_col d s = Inr p"
    using loc_col_getitem [OF rows] by simp
  with p show "\<exists>p q. getitem pd d s = Inr p \<and> loc_col pd d s = Inr q \<and> q = p \<and>
             equals pd p q = Inr True"
    by (simp add: pd_def pd_equals_def)
next
  assume "exec pd (take 18 notebook) st = (st', None)"
  then show "last (stdout st') = [BoolV True]" by (rule check_prints_True)
qed

theorem column_lookup_equals_loc_witness:
  "read_csv pd example_files ''../data/brca_expression_5yr_dead.tsv'' (CHR 0x09) 0 0 =
     Inr example_df \<and>
   ''TCGA-B6-A0WW-01A'' \<in> set (columns example_df) \<and>
   getitem pd example_df ''TCGA-B6-A0WW-01A'' =
     Inr \<lparr>sname = ''TCGA-B6-A0WW-01A'', sindex = [''A1BG'', ''A2M'', ''ZZZ3''],
          svalues = [Num 2.32193, Num 8.07841, Num 10]\<rparr> \<and>
   loc_col pd example_df ''TCGA-B6-A0WW-01A'' = getitem pd example_df ''TCGA-B6-A0WW-01A'' \<and>
   snd (exec pd (take 18 notebook) (fresh example_files)) = None \<and>
   last (stdout (fst (exec pd (take 18 notebook) (fresh example_files)))) = [BoolV True]"
proof -
  have a: "read_csv pd example_files ''../data/brca_expression_5yr_dead.tsv'' (CHR 0x09) 0 0 =
     Inr example_df"
    by (simp add: pd_def example_read)
  have b: "''TCGA-B6-A0WW-01A'' \<in> set (columns example_df)"
    by (simp add: example_df_def)
  have c: "getitem pd example_df ''TCGA-B6-A0WW-01A'' =
     Inr \<lparr>sname = ''TCGA-B6-A0WW-01A'', sindex = [''A1BG'', ''A2M'', ''ZZZ3''],
          svalues = [Num 2.32193, Num 8.07841, Num 10]\<rparr>"
    by (simp add: pd_def pd_getitem_def example_df_def)
  have run: "exec pd (take 18 notebook) (fresh example_files) =
      (fst (exec pd (take 18 notebook) (fresh example_files)), None)"
    using example_run_check by (metis prod.collapse)
  from column_lookup_equals_loc [of example_files "''../data/brca_expression_5yr_dead.tsv''"
      "CHR 0x09" 0 0 example_df "''TCGA-B6-A0WW-01A''" "fresh example_files"
      "fst (exec pd (take 18 notebook) (fresh example_files))"] a b run
  have "loc_col pd example_df ''TCGA-B6-A0WW-01A'' = getitem pd example_df ''TCGA-B6-A0WW-01A''"
    and "last (stdout (fst (exec pd (take 18 notebook) (fresh example_files)))) = [BoolV True]"
    by auto
  then show ?thesis using a b c example_run_check by simp
qed

end
